theory Spec2Isabelle
  imports Main "HOL-Library.Stream" "HOL-Library.Word"
begin

section \<open>Python values and errors\<close>

text \<open>
  The program is \<^verbatim>\<open>src/main.py\<close>: a preference store kept in a JSON file
  (\<^verbatim>\<open>SimpleMemory\<close>), three tool functions, and the loop that runs one turn of the
  conversation. Exceptions are values: every function that can raise returns
  \<open>py_error + 'a\<close>, with \<open>Inl\<close> the exception that escapes. A function that changes
  the store, the file, the random number generator or the clock takes the state and
  returns the new one, also next to an exception. What the program prints is not
  recorded. Two calls of \<^verbatim>\<open>print\<close> are modelled by what they do to the caller, return
  or raise: the one of \<^verbatim>\<open>add\<close> (line 46), which stands between the write of the
  document and the result, and the one of \<^verbatim>\<open>find_flights\<close> (line 81), which is the only
  use of the destination and the date. The informational lines of \<^verbatim>\<open>__init__\<close>,
  \<^verbatim>\<open>search_by_category\<close> and \<^verbatim>\<open>call_agent_async\<close> are left out, apart from the exceptions
  that computing their text can raise.
\<close>

datatype py_error =
  AttributeError | TypeError | KeyError | IndexError | OSError | UnicodeDecodeError
  | UnicodeEncodeError | JSONDecodeError | RecursionError | ValueError

text \<open>
  \<^verbatim>\<open>memory_store\<close> is whatever \<^verbatim>\<open>json.load\<close> returned, so it is modelled as a JSON
  value and not as a well-typed mapping. A Python \<^verbatim>\<open>dict\<close> keeps insertion order; it is
  an association list, looked up with \<open>map_of\<close>. A float is its 64 bits.
\<close>

datatype json =
  JNull
  | JBool bool
  | JInt int
  | JFloat "64 word"
  | JStr string
  | JArr "json list"
  | JObj "(string \<times> json) list"

type_synonym dict = "(string \<times> json) list"

text \<open>\<^verbatim>\<open>d.get(k, default)\<close>\<close>

definition dict_get :: "dict \<Rightarrow> string \<Rightarrow> json \<Rightarrow> json" where
  "dict_get d k dflt = (case map_of d k of Some v \<Rightarrow> v | None \<Rightarrow> dflt)"

text \<open>
  \<^verbatim>\<open>d.setdefault(k, default)\<close>: the value now stored under \<open>k\<close>, and the dictionary,
  which has gained the key at its end if it was missing.
\<close>

definition setdefault :: "string \<Rightarrow> json \<Rightarrow> dict \<Rightarrow> json \<times> dict" where
  "setdefault k dflt d =
     (case map_of d k of Some v \<Rightarrow> (v, d) | None \<Rightarrow> (dflt, d @ [(k, dflt)]))"

text \<open>
  The value stored under \<open>k\<close> is replaced. The source never assigns to a key: it mutates
  the object stored there in place, and in a model without references that is writing
  the mutated object back under its key.
\<close>

fun dict_set :: "string \<Rightarrow> json \<Rightarrow> dict \<Rightarrow> dict" where
  "dict_set k v [] = [(k, v)]"
| "dict_set k v ((k', v') # d) = (if k = k' then (k, v) # d else (k', v') # dict_set k v d)"

text \<open>\<^verbatim>\<open>needle in hay\<close> on two strings: \<open>needle\<close> occurs in \<open>hay\<close> as a contiguous run.\<close>

fun starts_with :: "string \<Rightarrow> string \<Rightarrow> bool" where
  "starts_with [] hay = True"
| "starts_with (c # cs) [] = False"
| "starts_with (c # cs) (h # hs) = (c = h \<and> starts_with cs hs)"

fun str_in :: "string \<Rightarrow> string \<Rightarrow> bool" where
  "str_in needle [] = (needle = [])"
| "str_in needle (h # hs) = (starts_with needle (h # hs) \<or> str_in needle hs)"

text \<open>
  \<^verbatim>\<open>data in x\<close> for a string \<open>data\<close>: membership in a list, key membership in a
  dict, substring of a string, and \<^verbatim>\<open>TypeError\<close> on a value that is not iterable.
\<close>

fun py_in :: "string \<Rightarrow> json \<Rightarrow> py_error + bool" where
  "py_in data (JArr xs) = Inr (JStr data \<in> set xs)"
| "py_in data (JObj d) = Inr (data \<in> set (map fst d))"
| "py_in data (JStr s) = Inr (str_in data s)"
| "py_in data _ = Inl TypeError"

text \<open>
  A string is the UTF-8 bytes of the Python \<^verbatim>\<open>str\<close> (with a lone surrogate, which JSON
  can denote, as the three bytes that the same scheme gives it). Its characters are
  counted by the bytes that start one: every byte but the continuation bytes \<open>0x80\<close>
  to \<open>0xBF\<close>.
\<close>

definition continuation_byte :: "char \<Rightarrow> bool" where
  "continuation_byte c = (128 \<le> (of_char c :: nat) \<and> (of_char c :: nat) < 192)"

definition code_points :: "string \<Rightarrow> nat" where
  "code_points s = length (filter (\<lambda>c. \<not> continuation_byte c) s)"

text \<open>\<^verbatim>\<open>len(x)\<close>\<close>

fun py_len :: "json \<Rightarrow> py_error + nat" where
  "py_len (JArr xs) = Inr (length xs)"
| "py_len (JObj d) = Inr (length (remdups (map fst d)))"
| "py_len (JStr s) = Inr (code_points s)"
| "py_len _ = Inl TypeError"

text \<open>\<^verbatim>\<open>x[k]\<close> for a string \<open>k\<close>\<close>

fun getitem :: "json \<Rightarrow> string \<Rightarrow> py_error + json" where
  "getitem (JObj d) k = (case map_of d k of None \<Rightarrow> Inl KeyError | Some v \<Rightarrow> Inr v)"
| "getitem _ k = Inl TypeError"

text \<open>
  The argument of a \<^verbatim>\<open>print\<close> is an f-string. It is kept as its pieces: text that is
  written as it is (the literal parts and the values that are strings), and the list
  of preferences or \<^verbatim>\<open>None\<close>, of which Python writes the \<^verbatim>\<open>repr\<close>. Standard output
  decides, for each line, whether \<^verbatim>\<open>print\<close> returns (\<open>None\<close>) or raises:
  \<^verbatim>\<open>UnicodeEncodeError\<close> for a character that its encoding does not have, \<^verbatim>\<open>OSError\<close>
  for a pipe that was closed.
\<close>

datatype fragment = Str string | Repr "string list option"

type_synonym stdout = "fragment list \<Rightarrow> py_error option"

definition py_print :: "fragment list \<Rightarrow> stdout \<Rightarrow> py_error + unit" where
  "py_print line out = (case out line of Some e \<Rightarrow> Inl e | None \<Rightarrow> Inr ())"

section \<open>The preference store\<close>

text \<open>
  The backing document is modelled by what opening and parsing it does. The path does
  not exist (\<^verbatim>\<open>os.path.exists\<close> is false). Or it exists and \<^verbatim>\<open>open\<close> or \<^verbatim>\<open>json.load\<close>
  raises: \<^verbatim>\<open>OSError\<close> for a file that cannot be opened or read, \<^verbatim>\<open>UnicodeDecodeError\<close>
  for bytes that are not text in the locale's encoding, \<^verbatim>\<open>JSONDecodeError\<close> for text that
  is not JSON, \<^verbatim>\<open>RecursionError\<close> for JSON nested deeper than the decoder goes,
  \<^verbatim>\<open>ValueError\<close> for an integer with more digits than the interpreter converts. Or
  \<^verbatim>\<open>json.load\<close> returns a value.
\<close>

datatype document = Absent | Raises py_error | Holds json

abbreviation Malformed :: document where
  "Malformed \<equiv> Raises JSONDecodeError"

text \<open>
  What the operating system does with one attempt to rewrite the document: the write
  goes through; \<^verbatim>\<open>open(path, "w")\<close> raises and the document is untouched; or the file
  is opened, hence truncated, and writing raises before the text is complete.
\<close>

datatype write_outcome = Written | OpenFails | WriteFails

text \<open>
  A \<^verbatim>\<open>SimpleMemory\<close> object together with its file and the standard output it prints
  to. \<open>outcomes\<close> is the fate of each future attempt to write; \<open>flushes\<close> counts the
  calls of \<^verbatim>\<open>_save_to_file\<close>.
\<close>

record simple_memory =
  memory_store :: json
  backing :: document
  outcomes :: "write_outcome stream"
  flushes :: nat
  sys_stdout :: stdout

text \<open>\<^verbatim>\<open>os.path.exists(self.filepath)\<close>\<close>

fun path_exists :: "document \<Rightarrow> bool" where
  "path_exists Absent = False"
| "path_exists _ = True"

text \<open>\<^verbatim>\<open>with open(self.filepath, "r") as f: json.load(f)\<close>\<close>

fun json_load :: "document \<Rightarrow> py_error + json" where
  "json_load Absent = Inl OSError"
| "json_load (Raises e) = Inl e"
| "json_load (Holds v) = Inr v"

text \<open>\<^verbatim>\<open>SimpleMemory._load_from_file\<close>: only \<^verbatim>\<open>JSONDecodeError\<close> is caught.\<close>

definition load_from_file :: "document \<Rightarrow> py_error + json" where
  "load_from_file doc =
     (if \<not> path_exists doc then Inr (JObj [])
      else (case json_load doc of
              Inl JSONDecodeError \<Rightarrow> Inr (JObj [])
            | Inl e \<Rightarrow> Inl e
            | Inr v \<Rightarrow> Inr v))"

text \<open>\<^verbatim>\<open>SimpleMemory.__init__\<close>\<close>

definition init_memory ::
  "document \<Rightarrow> write_outcome stream \<Rightarrow> stdout \<Rightarrow> py_error + simple_memory" where
  "init_memory doc os out =
     (case load_from_file doc of
        Inl e \<Rightarrow> Inl e
      | Inr v \<Rightarrow>
          Inr \<lparr>memory_store = v, backing = doc, outcomes = os, flushes = 0, sys_stdout = out\<rparr>)"

text \<open>
  \<^verbatim>\<open>SimpleMemory._save_to_file\<close>. A write that raises midway leaves a proper prefix of
  the text of a JSON object, which is not JSON.
\<close>

definition save_to_file :: "simple_memory \<Rightarrow> (py_error + unit) \<times> simple_memory" where
  "save_to_file m =
     (let m' = m\<lparr>outcomes := stl (outcomes m), flushes := Suc (flushes m)\<rparr>
      in case shd (outcomes m) of
           OpenFails \<Rightarrow> (Inl OSError, m')
         | WriteFails \<Rightarrow> (Inl OSError, m'\<lparr>backing := Malformed\<rparr>)
         | Written \<Rightarrow> (Inr (), m'\<lparr>backing := Holds (memory_store m)\<rparr>))"

text \<open>
  Line 42 of \<^verbatim>\<open>add\<close>, \<^verbatim>\<open>self.memory_store.setdefault(user_id, {}).setdefault(category, [])\<close>,
  as the store it leaves. \<^verbatim>\<open>AttributeError\<close> is raised by a store that is not a dict
  and by a user entry that is not a dict; in both cases nothing has been inserted (a
  user entry that is not a dict was there before the call).
\<close>

definition ensure_entry :: "string \<Rightarrow> string \<Rightarrow> json \<Rightarrow> py_error + json" where
  "ensure_entry user_id category store =
     (case store of
        JObj users \<Rightarrow>
          (case setdefault user_id (JObj []) users of
             (JObj cats, users1) \<Rightarrow>
               (case setdefault category (JArr []) cats of
                  (entry, cats1) \<Rightarrow> Inr (JObj (dict_set user_id (JObj cats1) users1)))
           | (_, users1) \<Rightarrow> Inl AttributeError)
      | _ \<Rightarrow> Inl AttributeError)"

text \<open>\<^verbatim>\<open>self.memory_store[user_id][category]\<close>\<close>

definition subscript2 :: "json \<Rightarrow> string \<Rightarrow> string \<Rightarrow> py_error + json" where
  "subscript2 store user_id category =
     (case store of
        JObj users \<Rightarrow>
          (case map_of users user_id of
             None \<Rightarrow> Inl KeyError
           | Some (JObj cats) \<Rightarrow>
               (case map_of cats category of None \<Rightarrow> Inl KeyError | Some entry \<Rightarrow> Inr entry)
           | Some _ \<Rightarrow> Inl TypeError)
      | _ \<Rightarrow> Inl TypeError)"

text \<open>
  \<^verbatim>\<open>self.memory_store[user_id][category].append(data)\<close>, as the store it leaves: only a
  list has \<^verbatim>\<open>append\<close>.
\<close>

definition append_entry :: "string \<Rightarrow> string \<Rightarrow> string \<Rightarrow> json \<Rightarrow> py_error + json" where
  "append_entry user_id category data store =
     (case store of
        JObj users \<Rightarrow>
          (case map_of users user_id of
             None \<Rightarrow> Inl KeyError
           | Some (JObj cats) \<Rightarrow>
               (case map_of cats category of
                  None \<Rightarrow> Inl KeyError
                | Some (JArr xs) \<Rightarrow>
                    Inr (JObj (dict_set user_id
                                 (JObj (dict_set category (JArr (xs @ [JStr data])) cats)) users))
                | Some _ \<Rightarrow> Inl AttributeError)
           | Some _ \<Rightarrow> Inl TypeError)
      | _ \<Rightarrow> Inl TypeError)"

text \<open>The line printed by \<^verbatim>\<open>add\<close> (line 47).\<close>

definition saved_line :: "string \<Rightarrow> string \<Rightarrow> string \<Rightarrow> fragment list" where
  "saved_line user_id category data =
     [Str (''[Memory System] Saved data for user '' @ [CHR 0x27] @ user_id @ [CHR 0x27]
           @ '' in category '' @ [CHR 0x27] @ category @ [CHR 0x27]
           @ '': '' @ [CHR 0x27] @ data @ [CHR 0x27])]"

text \<open>
  \<^verbatim>\<open>SimpleMemory.add\<close>. The store is mutated before the file is written, and the file is
  written before the line is printed: the store that comes back with an exception of
  \<^verbatim>\<open>_save_to_file\<close> holds the new value, and so do the store and the document that come
  back with an exception of \<^verbatim>\<open>print\<close>.
\<close>

definition add :: "string \<Rightarrow> string \<Rightarrow> string \<Rightarrow> simple_memory \<Rightarrow> (py_error + bool) \<times> simple_memory" where
  "add user_id category data m =
     (case ensure_entry user_id category (memory_store m) of
        Inl e \<Rightarrow> (Inl e, m)
      | Inr store1 \<Rightarrow>
          (let m1 = m\<lparr>memory_store := store1\<rparr>
           in case subscript2 store1 user_id category of
                Inl e \<Rightarrow> (Inl e, m1)
              | Inr entry \<Rightarrow>
                  (case py_in data entry of
                     Inl e \<Rightarrow> (Inl e, m1)
                   | Inr True \<Rightarrow> (Inr True, m1)
                   | Inr False \<Rightarrow>
                       (case append_entry user_id category data store1 of
                          Inl e \<Rightarrow> (Inl e, m1)
                        | Inr store2 \<Rightarrow>
                            (case save_to_file (m\<lparr>memory_store := store2\<rparr>) of
                               (Inl e, m2) \<Rightarrow> (Inl e, m2)
                             | (Inr _, m2) \<Rightarrow>
                                 (case py_print (saved_line user_id category data)
                                         (sys_stdout m2) of
                                    Inl e \<Rightarrow> (Inl e, m2)
                                  | Inr _ \<Rightarrow> (Inr True, m2)))))))"

text \<open>
  Lines 52 and 53 of \<^verbatim>\<open>search_by_category\<close>, the two calls of \<^verbatim>\<open>get\<close>: a store or a
  user entry that is not a dict has no \<^verbatim>\<open>get\<close>.
\<close>

definition lookup :: "json \<Rightarrow> string \<Rightarrow> string \<Rightarrow> py_error + json" where
  "lookup store user_id category =
     (case store of
        JObj users \<Rightarrow>
          (case dict_get users user_id (JObj []) of
             JObj cats \<Rightarrow> Inr (dict_get cats category (JArr []))
           | _ \<Rightarrow> Inl AttributeError)
      | _ \<Rightarrow> Inl AttributeError)"

text \<open>
  \<^verbatim>\<open>SimpleMemory.search_by_category\<close>. The message it prints takes \<^verbatim>\<open>len(results)\<close>,
  which raises on a value without a length.
\<close>

definition search_by_category :: "string \<Rightarrow> string \<Rightarrow> simple_memory \<Rightarrow> py_error + json" where
  "search_by_category user_id category m =
     (case lookup (memory_store m) user_id category of
        Inl e \<Rightarrow> Inl e
      | Inr results \<Rightarrow> (case py_len results of Inl e \<Rightarrow> Inl e | Inr _ \<Rightarrow> Inr results))"

text \<open>
  The structure the store is meant to have: a mapping from user to a mapping from
  category to a list of strings, each list satisfying \<open>P\<close>. \<open>store_ok\<close> is the
  structure alone, \<open>store_inv\<close> the structure with the invariant that no list holds a
  string twice.
\<close>

fun is_str :: "json \<Rightarrow> bool" where
  "is_str (JStr s) = True"
| "is_str _ = False"

fun category_all :: "(json list \<Rightarrow> bool) \<Rightarrow> json \<Rightarrow> bool" where
  "category_all P (JArr xs) = (list_all is_str xs \<and> P xs)"
| "category_all P _ = False"

fun user_all :: "(json list \<Rightarrow> bool) \<Rightarrow> json \<Rightarrow> bool" where
  "user_all P (JObj cats) = list_all (\<lambda>kv. category_all P (snd kv)) cats"
| "user_all P _ = False"

fun store_all :: "(json list \<Rightarrow> bool) \<Rightarrow> json \<Rightarrow> bool" where
  "store_all P (JObj users) = list_all (\<lambda>kv. user_all P (snd kv)) users"
| "store_all P _ = False"

definition store_ok :: "json \<Rightarrow> bool" where
  "store_ok store = store_all (\<lambda>xs. True) store"


text \<open>The store in memory is what loading the backing document would give.\<close>

definition in_sync :: "simple_memory \<Rightarrow> bool" where
  "in_sync m = (load_from_file (backing m) = Inr (memory_store m))"

section \<open>The tools\<close>

text \<open>
  The current user is an attribute \<^verbatim>\<open>user_id\<close> set on each of the two tool functions;
  a function that has not been given the attribute has \<open>None\<close>.
\<close>

record bindings =
  save_user_id :: "string option"
  retrieve_user_id :: "string option"

definition USER_ID :: string where
  "USER_ID = ''Chris''"

text \<open>\<^verbatim>\<open>getattr(f, "user_id", USER_ID)\<close>\<close>

definition getattr_user_id :: "string option \<Rightarrow> string \<Rightarrow> string" where
  "getattr_user_id attr dflt = (case attr of Some u \<Rightarrow> u | None \<Rightarrow> dflt)"

text \<open>A tool returns a dict; it is a JSON object.\<close>

definition save_user_preference ::
  "string \<Rightarrow> string \<Rightarrow> bindings \<Rightarrow> simple_memory \<Rightarrow> (py_error + json) \<times> simple_memory" where
  "save_user_preference category preference b m =
     (let user_id = getattr_user_id (save_user_id b) USER_ID
      in case add user_id category preference m of
           (Inl e, m') \<Rightarrow> (Inl e, m')
         | (Inr _, m') \<Rightarrow>
             (Inr (JObj [(''status'', JStr ''success''),
                         (''message'', JStr (''Preference saved in category '' @ [CHR 0x27]
                                               @ category @ [CHR 0x27] @ ''.''))]),
              m'))"

definition retrieve_user_preferences ::
  "string \<Rightarrow> bindings \<Rightarrow> simple_memory \<Rightarrow> py_error + json" where
  "retrieve_user_preferences category b m =
     (let user_id = getattr_user_id (retrieve_user_id b) USER_ID
      in case search_by_category user_id category m of
           Inl e \<Rightarrow> Inl e
         | Inr results \<Rightarrow>
             (case py_len results of
                Inl e \<Rightarrow> Inl e
              | Inr n \<Rightarrow>
                  Inr (JObj [(''status'', JStr ''success''),
                             (''preferences'', results),
                             (''count'', JInt (int n))])))"

section \<open>The flight generator\<close>

text \<open>
  \<^verbatim>\<open>find_flights\<close> uses three things that are not arguments: the random number
  generator, the clock and standard output. The first two are streams: the next call
  takes the head. A random draw is a natural number, reduced into the range the call
  asks for; a clock reading is the local time in minutes.
\<close>

record world =
  rand :: "nat stream"
  clock :: "nat stream"
  stdout :: stdout

text \<open>\<^verbatim>\<open>random.randint(a, b)\<close>, both ends included.\<close>

definition randint :: "nat \<Rightarrow> nat \<Rightarrow> world \<Rightarrow> nat \<times> world" where
  "randint a b w = (a + shd (rand w) mod (b + 1 - a), w\<lparr>rand := stl (rand w)\<rparr>)"

text \<open>\<^verbatim>\<open>random.choice(xs)\<close>, which raises \<^verbatim>\<open>IndexError\<close> on an empty sequence.\<close>

definition choice :: "'a list \<Rightarrow> world \<Rightarrow> (py_error + 'a) \<times> world" where
  "choice xs w =
     (if xs = [] then (Inl IndexError, w)
      else (Inr (xs ! (shd (rand w) mod length xs)), w\<lparr>rand := stl (rand w)\<rparr>))"

text \<open>\<^verbatim>\<open>datetime.now()\<close>\<close>

definition now :: "world \<Rightarrow> nat \<times> world" where
  "now w = (shd (clock w), w\<lparr>clock := stl (clock w)\<rparr>)"

text \<open>
  \<^verbatim>\<open>str.lower\<close> and \<^verbatim>\<open>str.upper\<close> on ASCII letters. A string is its UTF-8 bytes; the
  bytes of a character outside ASCII are left as they are. The airline names are ASCII,
  so the bytes of such a character match no byte of a name, before or after Python
  changes its case; the two characters whose lower case has an ASCII letter (U+0130,
  which gives \<open>i\<close> followed by U+0307, and U+212A, which gives \<open>k\<close>) cannot complete a
  name either: no name has a \<open>k\<close>, and none ends in \<open>i\<close>.
\<close>

definition lower_char :: "char \<Rightarrow> char" where
  "lower_char c =
     (let n = (of_char c :: nat) in if 65 \<le> n \<and> n \<le> 90 then char_of (n + 32) else c)"

definition upper_char :: "char \<Rightarrow> char" where
  "upper_char c =
     (let n = (of_char c :: nat) in if 97 \<le> n \<and> n \<le> 122 then char_of (n - 32) else c)"

definition lower :: "string \<Rightarrow> string" where
  "lower s = map lower_char s"

definition upper :: "string \<Rightarrow> string" where
  "upper s = map upper_char s"

text \<open>\<^verbatim>\<open>str(n)\<close> for a natural number, and two digits with a leading zero.\<close>

definition digit_char :: "nat \<Rightarrow> char" where
  "digit_char d = char_of (48 + d)"

fun str_of_nat :: "nat \<Rightarrow> string" where
  "str_of_nat n =
     (if n < 10 then [digit_char n] else str_of_nat (n div 10) @ [digit_char (n mod 10)])"

declare str_of_nat.simps [simp del]

definition two_digits :: "nat \<Rightarrow> string" where
  "two_digits n = [digit_char (n div 10 mod 10), digit_char (n mod 10)]"

text \<open>
  \<^verbatim>\<open>(t + timedelta(hours=h)).strftime("%H:%M")\<close> for a time \<open>t\<close> in minutes.
\<close>

definition hours :: "nat \<Rightarrow> nat" where
  "hours h = 60 * h"

definition strftime_HM :: "nat \<Rightarrow> string" where
  "strftime_HM t = two_digits (t div 60 mod 24) @ '':'' @ two_digits (t mod 60)"

definition all_airlines :: "string list" where
  "all_airlines =
     [''Delta'', ''Qatar Airways'', ''Singapore Airlines'', ''Ryanair'', ''Lufthansa'', ''Emirates'']"

text \<open>
  Lines 95 to 102: the inner loop stops at the first airline whose lower-case name
  occurs in the lower-case preference, the outer loop at the first preference for
  which the inner loop found one. \<^verbatim>\<open>None\<close> and the empty list both skip the loops.
\<close>

fun match_airline :: "string list \<Rightarrow> string \<Rightarrow> string option" where
  "match_airline [] pref = None"
| "match_airline (airline # rest) pref =
     (if str_in (lower airline) (lower pref) then Some airline else match_airline rest pref)"

fun scan_preferences :: "string list \<Rightarrow> string option" where
  "scan_preferences [] = None"
| "scan_preferences (pref # rest) =
     (case match_airline all_airlines pref of
        Some airline \<Rightarrow> Some airline
      | None \<Rightarrow> scan_preferences rest)"

definition find_preferred :: "string list option \<Rightarrow> string option" where
  "find_preferred preferences =
     (case preferences of None \<Rightarrow> None | Some prefs \<Rightarrow> scan_preferences prefs)"



text \<open>One entry of \<^verbatim>\<open>flights_found\<close>.\<close>

definition offer :: "string \<Rightarrow> nat \<Rightarrow> nat \<Rightarrow> nat \<Rightarrow> nat \<Rightarrow> string \<Rightarrow> json" where
  "offer airline number departure arrival price notes =
     JObj [(''airline'', JStr airline),
           (''flight_number'', JStr (upper (take 2 airline) @ str_of_nat number)),
           (''departure_time'', JStr (strftime_HM departure)),
           (''arrival_time'', JStr (strftime_HM arrival)),
           (''price'', JStr (str_of_nat price @ '' EUR'')),
           (''notes'', JStr notes)]"

text \<open>Lines 106 to 119, the offer of the preferred airline.\<close>

definition preferred_offer :: "string \<Rightarrow> world \<Rightarrow> json \<times> world" where
  "preferred_offer airline w0 =
     (case randint 100 999 w0 of (number, w1) \<Rightarrow>
      case now w1 of (t1, w2) \<Rightarrow>
      case randint 2 5 w2 of (h1, w3) \<Rightarrow>
      case now w3 of (t2, w4) \<Rightarrow>
      case randint 10 14 w4 of (h2, w5) \<Rightarrow>
      case randint 800 1800 w5 of (price, w6) \<Rightarrow>
        (offer airline number (t1 + hours h1) (t2 + hours h2) price
           ''Matches your preferred airline'', w6))"

text \<open>Lines 122 to 136, one pass of the loop.\<close>

definition standard_offer :: "string option \<Rightarrow> world \<Rightarrow> (py_error + json) \<times> world" where
  "standard_offer preferred_airline w0 =
     (case choice (filter (\<lambda>a. Some a \<noteq> preferred_airline) all_airlines) w0 of
        (Inl e, w1) \<Rightarrow> (Inl e, w1)
      | (Inr airline, w1) \<Rightarrow>
          (case randint 100 999 w1 of (number, w2) \<Rightarrow>
           case now w2 of (t1, w3) \<Rightarrow>
           case randint 2 12 w3 of (h1, w4) \<Rightarrow>
           case now w4 of (t2, w5) \<Rightarrow>
           case randint 14 20 w5 of (h2, w6) \<Rightarrow>
           case randint 400 1500 w6 of (price, w7) \<Rightarrow>
             (Inr (offer airline number (t1 + hours h1) (t2 + hours h2) price
                     ''Standard option''), w7)))"

text \<open>The loop of line 121, run \<open>n\<close> times, appending to \<^verbatim>\<open>flights_found\<close>.\<close>

fun standard_offers ::
  "nat \<Rightarrow> string option \<Rightarrow> json list \<Rightarrow> world \<Rightarrow> (py_error + json list) \<times> world" where
  "standard_offers 0 preferred_airline flights_found w = (Inr flights_found, w)"
| "standard_offers (Suc n) preferred_airline flights_found w =
     (case standard_offer preferred_airline w of
        (Inl e, w') \<Rightarrow> (Inl e, w')
      | (Inr f, w') \<Rightarrow> standard_offers n preferred_airline (flights_found @ [f]) w')"

text \<open>
  The line printed by \<^verbatim>\<open>find_flights\<close> (line 82): the destination and the date as they
  are, the preferences as \<^verbatim>\<open>repr\<close> gives them.
\<close>

definition announcement :: "string \<Rightarrow> string \<Rightarrow> string list option \<Rightarrow> fragment list" where
  "announcement destination departure_date preferences =
     [Str (''INFO: Dummy tool '' @ [CHR 0x27] @ ''find_flights'' @ [CHR 0x27]
           @ '' called for '' @ destination @ '' on '' @ departure_date
           @ '' with preferences: ''),
      Repr preferences]"

text \<open>
  \<^verbatim>\<open>find_flights\<close>. The destination and the date are only printed; when \<^verbatim>\<open>print\<close>
  raises, nothing has been drawn yet.
\<close>

definition find_flights ::
  "string \<Rightarrow> string \<Rightarrow> string list option \<Rightarrow> world \<Rightarrow> (py_error + json) \<times> world" where
  "find_flights destination departure_date preferences w0 =
     (case py_print (announcement destination departure_date preferences) (stdout w0) of
        Inl e \<Rightarrow> (Inl e, w0)
      | Inr _ \<Rightarrow>
          (let preferred_airline = find_preferred preferences;
               (flights_found, w1) =
                  (case preferred_airline of
                     None \<Rightarrow> ([], w0)
                   | Some airline \<Rightarrow> (case preferred_offer airline w0 of (f, w) \<Rightarrow> ([f], w)));
               (n, w2) = randint 1 2 w1
           in case standard_offers n preferred_airline flights_found w2 of
                (Inl e, w3) \<Rightarrow> (Inl e, w3)
              | (Inr flights, w3) \<Rightarrow>
                  (Inr (JObj [(''status'', JStr ''success''), (''flights'', JArr flights)]),
                   w3)))"

section \<open>One turn of the conversation\<close>










section \<open>Inputs of the examples\<close>

text \<open>
  A standard output that prints every line; and one that prints every line but a given
  one, at which \<^verbatim>\<open>print\<close> raises \<^verbatim>\<open>UnicodeEncodeError\<close>: what a standard output in ASCII
  does in the examples, where the given line is the only one with a character outside
  ASCII. That character is the second letter of the name of Zurich as the city writes
  it, a \<open>u\<close> with two dots, which is the two bytes \<open>0xC3\<close> and \<open>0xBC\<close>.
\<close>

abbreviation prints_all :: stdout where
  "prints_all \<equiv> (\<lambda>line. None)"

abbreviation prints_all_but :: "fragment list \<Rightarrow> stdout" where
  "prints_all_but line0 \<equiv> (\<lambda>line. if line = line0 then Some UnicodeEncodeError else None)"

abbreviation zurich :: string where
  "zurich \<equiv> [CHR ''Z'', CHR 0xC3, CHR 0xBC, CHR ''r'', CHR ''i'', CHR ''c'', CHR ''h'']"

text \<open>
  The object that \<^verbatim>\<open>SimpleMemory.__init__\<close> makes when there is no document, the store
  that holds one preference of the default user, and the tool functions before any
  turn has set their \<^verbatim>\<open>user_id\<close>.
\<close>

abbreviation fresh :: "write_outcome stream \<Rightarrow> simple_memory" where
  "fresh os \<equiv> \<lparr>memory_store = JObj [], backing = Absent, outcomes = os, flushes = 0, sys_stdout = prints_all\<rparr>"

abbreviation delta_store :: json where
  "delta_store \<equiv>
     JObj [(''Chris'', JObj [(''travel_preferences'', JArr [JStr ''I love Delta''])])]"

abbreviation unbound :: bindings where
  "unbound \<equiv> \<lparr>save_user_id = None, retrieve_user_id = None\<rparr>"

text \<open>
  A flight as the tool returns it, and four states of the generator, the clock and
  standard output: every draw at its lowest at midnight, the same one hour later, the
  same at midnight with a standard output that cannot print the line for Zurich,
  and, at midnight, draws that take the four hour offsets of a preferred and a
  standard offer to their highest.
\<close>

abbreviation flight ::
  "string \<Rightarrow> string \<Rightarrow> string \<Rightarrow> string \<Rightarrow> string \<Rightarrow> string \<Rightarrow> json" where
  "flight airline number departure arrival price notes \<equiv>
     JObj [(''airline'', JStr airline), (''flight_number'', JStr number),
           (''departure_time'', JStr departure), (''arrival_time'', JStr arrival),
           (''price'', JStr price), (''notes'', JStr notes)]"

abbreviation lowest_at_midnight :: world where
  "lowest_at_midnight \<equiv> \<lparr>rand = sconst 0, clock = sconst 0, stdout = prints_all\<rparr>"

abbreviation lowest_at_one :: world where
  "lowest_at_one \<equiv> \<lparr>rand = sconst 0, clock = sconst 60, stdout = prints_all\<rparr>"

abbreviation lowest_in_ascii :: world where
  "lowest_in_ascii \<equiv>
     \<lparr>rand = sconst 0, clock = sconst 0,
      stdout = prints_all_but
                 (announcement zurich ''2025-01-01'' (Some [''I love window seats'']))\<rparr>"

abbreviation latest_at_midnight :: world where
  "latest_at_midnight \<equiv>
     \<lparr>rand = 0 ## 3 ## 4 ## 0 ## 0 ## 0 ## 0 ## 10 ## 6 ## sconst 0, clock = sconst 0, stdout = prints_all\<rparr>"

section \<open>Properties of the store operations\<close>


















lemma search_lookup_list:
  "lookup (memory_store m) u c = Inr (JArr xs) \<Longrightarrow> search_by_category u c m = Inr (JArr xs)"
  by (simp add: search_by_category_def)





lemma save_to_file_effect:
  "save_to_file m = (r, m') \<Longrightarrow>
     memory_store m' = memory_store m \<and> flushes m' = Suc (flushes m)
     \<and> sys_stdout m' = sys_stdout m
     \<and> (shd (outcomes m) = Written \<longrightarrow> r = Inr () \<and> backing m' = Holds (memory_store m))
     \<and> (shd (outcomes m) \<noteq> Written \<longrightarrow> r = Inl OSError)"
  by (auto simp: save_to_file_def Let_def split: write_outcome.splits)


lemma in_sync_init: "init_memory doc os out = Inr m \<Longrightarrow> in_sync m"
  by (auto simp: init_memory_def in_sync_def load_from_file_def
      split: sum.splits py_error.splits if_splits)

lemma add_example:
  "add ''Chris'' ''travel_preferences'' ''I love Delta'' (fresh (sconst Written))
   = (Inr True, \<lparr>memory_store = delta_store, backing = Holds delta_store,
                  outcomes = sconst Written, flushes = 1, sys_stdout = prints_all\<rparr>)"
  by (simp add: add_def ensure_entry_def setdefault_def subscript2_def append_entry_def
      save_to_file_def py_print_def)

lemma add_flush_cases:
  assumes "add u c v m = (r, m')"
  shows "flushes m' = flushes m
       \<or> (flushes m' = Suc (flushes m)
          \<and> (shd (outcomes m) = Written \<longrightarrow>
                r = (case sys_stdout m (saved_line u c v) of Some e \<Rightarrow> Inl e | None \<Rightarrow> Inr True))
          \<and> (shd (outcomes m) \<noteq> Written \<longrightarrow> r = Inl OSError))"
proof (cases "ensure_entry u c (memory_store m)")
  case (Inl e)
  with assms show ?thesis by (auto simp: add_def)
next
  case s1: (Inr s1)
  show ?thesis
  proof (cases "append_entry u c v s1")
    case (Inl e)
    with s1 assms show ?thesis
      by (auto simp: add_def Let_def split: sum.splits bool.splits)
  next
    case (Inr s2)
    obtain r' m2 where sv: "save_to_file (m\<lparr>memory_store := s2\<rparr>) = (r', m2)"
      by (cases "save_to_file (m\<lparr>memory_store := s2\<rparr>)")
    from save_to_file_effect[OF sv] have eff: "flushes m2 = Suc (flushes m)"
      "shd (outcomes m) = Written \<longrightarrow> r' = Inr ()" "shd (outcomes m) \<noteq> Written \<longrightarrow> r' = Inl OSError"
      "sys_stdout m2 = sys_stdout m"
      by simp_all
    from s1 Inr sv assms eff show ?thesis
      by (auto simp: add_def Let_def py_print_def split: sum.splits bool.splits option.splits)
  qed
qed

lemma search_py_len:
  "search_by_category u c m = Inr results \<Longrightarrow> \<exists>n. py_len results = Inr n"
  by (auto simp: search_by_category_def split: sum.splits)


section \<open>The claims about the store\<close>









text \<open>
  Claim C3 (corrupt storage), as stated, fails. A document that \<^verbatim>\<open>json.load\<close> decodes is
  returned as the value decoded, also when that value is not a mapping from users to
  mappings from categories to lists of strings: nothing checks the structure, and the
  store is not the empty one.
\<close>

theorem load_wrong_structure_counterexample:
  "\<not> store_ok (JObj [(''Chris'', JStr ''Delta'')])
   \<and> load_from_file (Holds (JObj [(''Chris'', JStr ''Delta'')]))
       = Inr (JObj [(''Chris'', JStr ''Delta'')])
   \<and> load_from_file (Holds (JObj [(''Chris'', JStr ''Delta'')])) \<noteq> Inr (JObj [])"
  by (simp add: load_from_file_def store_ok_def)

text \<open>
  Claim C3, amended. When the document is absent, when reading it stops with
  \<^verbatim>\<open>JSONDecodeError\<close> (its text is not JSON), and when \<^verbatim>\<open>json.load\<close> returns a value,
  \<^verbatim>\<open>_load_from_file\<close> returns: the empty store in the first two cases, and in the third
  the value decoded, whatever its structure. So the store has the structure of the
  data model exactly when the document is absent, is not JSON, or holds a value of
  that structure. What happens when \<^verbatim>\<open>open\<close> or \<^verbatim>\<open>json.load\<close> raises another exception
  is not part of the statement.
\<close>

theorem load_from_file_recovers:
  assumes "\<forall>e. doc = Raises e \<longrightarrow> e = JSONDecodeError"
  shows "\<exists>store. load_from_file doc = Inr store
       \<and> (doc = Absent \<or> doc = Raises JSONDecodeError \<longrightarrow> store = JObj [])
       \<and> (\<forall>v. doc = Holds v \<longrightarrow> store = v)
       \<and> (store_ok store \<longleftrightarrow> (\<forall>v. doc = Holds v \<longrightarrow> store_ok v))"
proof (cases doc)
  case Absent
  then show ?thesis
    by (simp add: load_from_file_def store_ok_def)
next
  case (Raises e)
  with assms have "doc = Raises JSONDecodeError" by simp
  then show ?thesis
    by (simp add: load_from_file_def store_ok_def)
next
  case (Holds v)
  then show ?thesis
    by (simp add: load_from_file_def)
qed

theorem load_from_file_recovers_witness:
  "load_from_file Malformed = Inr (JObj []) \<and> store_ok (JObj [])
   \<and> load_from_file (Holds delta_store) = Inr delta_store \<and> store_ok delta_store"
  using load_from_file_recovers [of Malformed] load_from_file_recovers [of "Holds delta_store"]
  by (auto simp: store_ok_def)


section \<open>The claims about the tools and the turn\<close>

text \<open>
  Claim C2 (storage write failure), as stated, fails. With a write that fails,
  \<^verbatim>\<open>save_user_preference\<close> returns nothing: the \<^verbatim>\<open>OSError\<close> of \<^verbatim>\<open>_save_to_file\<close> escapes
  it, and there is no result whose status could be \<^verbatim>\<open>"error"\<close>.
\<close>

theorem save_flush_failure_counterexample:
  "save_user_preference ''travel_preferences'' ''I love Delta''
      \<lparr>save_user_id = Some ''Chris'', retrieve_user_id = Some ''Chris''\<rparr>
      (fresh (WriteFails ## sconst Written))
   = (Inl OSError,
      \<lparr>memory_store = delta_store, backing = Malformed,
       outcomes = sconst Written, flushes = 1, sys_stdout = prints_all\<rparr>)"
  by (simp add: save_user_preference_def getattr_user_id_def add_def ensure_entry_def
      setdefault_def subscript2_def append_entry_def save_to_file_def)

text \<open>
  Claim C2, amended. In every call of \<^verbatim>\<open>save_user_preference\<close> that flushes the store
  and whose flush fails, the \<^verbatim>\<open>OSError\<close> escapes as an exception; and whenever the
  function does return a result, its status is \<^verbatim>\<open>"success"\<close>, so it never reports
  \<^verbatim>\<open>"error"\<close>, and never \<^verbatim>\<open>"success"\<close> for a flush that failed.
\<close>

theorem save_flush_failure_escapes:
  assumes "save_user_preference category preference b m = (r, m')"
  shows "(flushes m' \<noteq> flushes m \<and> shd (outcomes m) \<noteq> Written \<longrightarrow> r = Inl OSError)
       \<and> (\<forall>res. r = Inr res \<longrightarrow> getitem res ''status'' = Inr (JStr ''success''))"
proof -
  obtain r0 m0 where a: "add (getattr_user_id (save_user_id b) USER_ID) category preference m = (r0, m0)"
    by (cases "add (getattr_user_id (save_user_id b) USER_ID) category preference m")
  with assms have eq: "m' = m0" "r0 = Inl OSError \<longrightarrow> r = Inl OSError"
    by (auto simp: save_user_preference_def Let_def split: sum.splits)
  from a assms have st: "\<forall>res. r = Inr res \<longrightarrow>
      getitem res ''status'' = Inr (JStr ''success'')"
    by (auto simp: save_user_preference_def Let_def split: sum.splits)
  from add_flush_cases[OF a] eq st show ?thesis by auto
qed

theorem save_flush_failure_escapes_witness:
  "flushes \<lparr>memory_store = delta_store, backing = Malformed,
            outcomes = sconst Written, flushes = 1, sys_stdout = prints_all\<rparr>
     \<noteq> flushes (fresh (WriteFails ## sconst Written))
   \<and> shd (outcomes (fresh (WriteFails ## sconst Written))) \<noteq> Written
   \<and> fst (save_user_preference ''travel_preferences'' ''I love Delta''
            \<lparr>save_user_id = Some ''Chris'', retrieve_user_id = Some ''Chris''\<rparr>
            (fresh (WriteFails ## sconst Written)))
       = Inl OSError"
  using save_flush_failure_escapes [of "''travel_preferences''" "''I love Delta''"
      "\<lparr>save_user_id = Some ''Chris'', retrieve_user_id = Some ''Chris''\<rparr>"
      "fresh (WriteFails ## sconst Written)"
      "Inl OSError"
      "\<lparr>memory_store = delta_store, backing = Malformed,
        outcomes = sconst Written, flushes = 1, sys_stdout = prints_all\<rparr>"]
  by (simp add: save_user_preference_def getattr_user_id_def add_def ensure_entry_def
      setdefault_def subscript2_def append_entry_def save_to_file_def)

text \<open>
  Claim C9 (default user). While no turn has set the \<^verbatim>\<open>user_id\<close> attribute of the tool
  functions, \<^verbatim>\<open>save_user_preference\<close> does to the store exactly what \<open>add\<close> does for the
  user \<^verbatim>\<open>"Chris"\<close>, raising only if that \<open>add\<close> raises, and
  \<^verbatim>\<open>retrieve_user_preferences\<close> returns what \<open>search_by_category\<close> finds for \<^verbatim>\<open>"Chris"\<close>,
  with its length as the count.
\<close>

theorem default_user:
  assumes "save_user_id b = None" and "retrieve_user_id b = None"
  shows "snd (save_user_preference category preference b m) = snd (add ''Chris'' category preference m)
     \<and> (case fst (add ''Chris'' category preference m) of
           Inl e \<Rightarrow> fst (save_user_preference category preference b m) = Inl e
         | Inr ok \<Rightarrow> (\<exists>res. fst (save_user_preference category preference b m) = Inr res))
     \<and> (case search_by_category ''Chris'' category m of
           Inl e \<Rightarrow> retrieve_user_preferences category b m = Inl e
         | Inr results \<Rightarrow>
             (\<exists>n. py_len results = Inr n
                \<and> retrieve_user_preferences category b m
                    = Inr (JObj [(''status'', JStr ''success''), (''preferences'', results),
                                 (''count'', JInt (int n))])))"
proof -
  have s: "snd (save_user_preference category preference b m) = snd (add ''Chris'' category preference m)
     \<and> (case fst (add ''Chris'' category preference m) of
           Inl e \<Rightarrow> fst (save_user_preference category preference b m) = Inl e
         | Inr ok \<Rightarrow> (\<exists>res. fst (save_user_preference category preference b m) = Inr res))"
    using assms(1)
    by (cases "add ''Chris'' category preference m")
       (auto simp: save_user_preference_def getattr_user_id_def USER_ID_def split: sum.splits)
  have r: "(case search_by_category ''Chris'' category m of
           Inl e \<Rightarrow> retrieve_user_preferences category b m = Inl e
         | Inr results \<Rightarrow>
             (\<exists>n. py_len results = Inr n
                \<and> retrieve_user_preferences category b m
                    = Inr (JObj [(''status'', JStr ''success''), (''preferences'', results),
                                 (''count'', JInt (int n))])))"
  proof (cases "search_by_category ''Chris'' category m")
    case (Inl e)
    with assms(2) show ?thesis
      by (simp add: retrieve_user_preferences_def getattr_user_id_def USER_ID_def)
  next
    case (Inr results)
    from search_py_len[OF Inr] obtain n where "py_len results = Inr n" by blast
    with Inr assms(2) show ?thesis
      by (simp add: retrieve_user_preferences_def getattr_user_id_def USER_ID_def)
  qed
  from s r show ?thesis by simp
qed

theorem default_user_witness:
  "save_user_id unbound = None \<and> retrieve_user_id unbound = None
   \<and> snd (save_user_preference ''travel_preferences'' ''I love Delta'' unbound
            (fresh (sconst Written)))
       = \<lparr>memory_store = delta_store, backing = Holds delta_store,
          outcomes = sconst Written, flushes = 1, sys_stdout = prints_all\<rparr>
   \<and> retrieve_user_preferences ''travel_preferences'' unbound
         \<lparr>memory_store = delta_store, backing = Holds delta_store,
          outcomes = sconst Written, flushes = 1, sys_stdout = prints_all\<rparr>
       = Inr (JObj [(''status'', JStr ''success''),
                    (''preferences'', JArr [JStr ''I love Delta'']), (''count'', JInt 1)])"
  using default_user [of unbound "''travel_preferences''" "''I love Delta''"
      "fresh (sconst Written)"]
    default_user [of unbound "''travel_preferences''" "''I love Delta''"
      "\<lparr>memory_store = delta_store, backing = Holds delta_store,
        outcomes = sconst Written, flushes = 1, sys_stdout = prints_all\<rparr>"]
    add_example
  by (simp add: search_by_category_def lookup_def dict_get_def)




section \<open>Properties of the flight generator\<close>

lemma randint_eq: "randint a b w = (a + shd (rand w) mod (b + 1 - a), w\<lparr>rand := stl (rand w)\<rparr>)"
  by (simp add: randint_def)

lemma preferred_offer_eq:
  "preferred_offer airline w =
     (offer airline (100 + shd (rand w) mod 900)
        (shd (clock w) + hours (2 + shd (stl (rand w)) mod 4))
        (shd (stl (clock w)) + hours (10 + shd (stl (stl (rand w))) mod 5))
        (800 + shd (stl (stl (stl (rand w)))) mod 1001)
        ''Matches your preferred airline'',
      w\<lparr>rand := stl (stl (stl (stl (rand w)))), clock := stl (stl (clock w))\<rparr>)"
  by (simp add: preferred_offer_def randint_def now_def)

lemma candidates_nonempty:
  "filter (\<lambda>a. Some a \<noteq> preferred_airline) all_airlines \<noteq> []"
  by (cases "preferred_airline = Some ''Delta''") (auto simp: all_airlines_def)

lemma standard_offer_eq:
  "standard_offer preferred_airline w =
     (Inr (offer (filter (\<lambda>a. Some a \<noteq> preferred_airline) all_airlines
                   ! (shd (rand w) mod length (filter (\<lambda>a. Some a \<noteq> preferred_airline) all_airlines)))
        (100 + shd (stl (rand w)) mod 900)
        (shd (clock w) + hours (2 + shd (stl (stl (rand w))) mod 11))
        (shd (stl (clock w)) + hours (14 + shd (stl (stl (stl (rand w)))) mod 7))
        (400 + shd (stl (stl (stl (stl (rand w))))) mod 1101)
        ''Standard option''),
      w\<lparr>rand := stl (stl (stl (stl (stl (rand w))))), clock := stl (stl (clock w))\<rparr>)"
  using candidates_nonempty[of preferred_airline]
  by (simp add: standard_offer_def choice_def randint_def now_def)

lemma candidate_nth:
  "filter (\<lambda>a. Some a \<noteq> pa) all_airlines ! (k mod length (filter (\<lambda>a. Some a \<noteq> pa) all_airlines))
     \<in> {a \<in> set all_airlines. Some a \<noteq> pa}"
proof -
  let ?c = "filter (\<lambda>a. Some a \<noteq> pa) all_airlines"
  have "?c \<noteq> []" by (rule candidates_nonempty)
  then have "k mod length ?c < length ?c" by simp
  then have "?c ! (k mod length ?c) \<in> set ?c" by (rule nth_mem)
  then show ?thesis by simp
qed

lemma str_of_nat_three_digits:
  assumes "100 \<le> n" "n \<le> 999"
  shows "length (str_of_nat n) = 3"
proof -
  from assms have "\<not> n < 10" "\<not> n div 10 < 10" "n div 10 div 10 < 10" by simp_all
  then show ?thesis
    by (simp add: str_of_nat.simps[of n] str_of_nat.simps[of "n div 10"]
        str_of_nat.simps[of "n div 10 div 10"])
qed

lemma standard_offers_indexed:
  assumes step: "\<And>k v. I k v \<Longrightarrow> \<exists>f v'. standard_offer pa v = (Inr f, v') \<and> P k f \<and> I (Suc k) v'"
    and "I k0 w"
  shows "\<exists>new w'. standard_offers n pa fs w = (Inr (fs @ new), w') \<and> length new = n
           \<and> (\<forall>i<n. P (k0 + i) (new ! i)) \<and> I (k0 + n) w'"
  using assms(2)
proof (induction n arbitrary: fs w k0)
  case 0
  then show ?case by simp
next
  case (Suc n)
  from step[OF Suc.prems] obtain f w1 where
    f: "standard_offer pa w = (Inr f, w1)" "P k0 f" "I (Suc k0) w1" by blast
  from Suc.IH[OF f(3), of "fs @ [f]"] obtain new w' where
    n: "standard_offers n pa (fs @ [f]) w1 = (Inr ((fs @ [f]) @ new), w')" "length new = n"
      "\<forall>i<n. P (Suc k0 + i) (new ! i)" "I (Suc k0 + n) w'" by blast
  have "standard_offers (Suc n) pa fs w = (Inr (fs @ (f # new)), w')"
    using f(1) n(1) by simp
  moreover have "length (f # new) = Suc n"
    using n(2) by simp
  moreover have "\<forall>i<Suc n. P (k0 + i) ((f # new) ! i)"
  proof (intro allI impI)
    fix i assume "i < Suc n"
    then show "P (k0 + i) ((f # new) ! i)"
      using f(2) n(3) by (cases i) auto
  qed
  moreover have "I (k0 + Suc n) w'" using n(4) by simp
  ultimately show ?case by blast
qed

lemma standard_offer_range:
  assumes "clock v = sdrop (2 * k) (clock w)"
  shows "\<exists>f v'. standard_offer pa v = (Inr f, v')
     \<and> (\<exists>airline n h1 h2 p.
           f = offer airline n (clock w !! (2 * k) + hours h1) (clock w !! (2 * k + 1) + hours h2) p
                 ''Standard option''
           \<and> airline \<in> set all_airlines \<and> pa \<noteq> Some airline
           \<and> 100 \<le> n \<and> n \<le> 999
           \<and> 2 \<le> h1 \<and> h1 \<le> 12 \<and> 14 \<le> h2 \<and> h2 \<le> 20
           \<and> 400 \<le> p \<and> p \<le> 1500)
     \<and> clock v' = sdrop (2 * Suc k) (clock w)"
proof -
  let ?c = "filter (\<lambda>a. Some a \<noteq> pa) all_airlines"
  let ?a = "?c ! (shd (rand v) mod length ?c)"
  let ?n = "100 + shd (stl (rand v)) mod 900"
  let ?h1 = "2 + shd (stl (stl (rand v))) mod 11"
  let ?h2 = "14 + shd (stl (stl (stl (rand v)))) mod 7"
  let ?p = "400 + shd (stl (stl (stl (stl (rand v))))) mod 1101"
  have a: "?a \<in> set all_airlines" "pa \<noteq> Some ?a"
    using candidate_nth[of pa "shd (rand v)"] by auto
  have t: "shd (clock v) = clock w !! (2 * k)" "shd (stl (clock v)) = clock w !! (2 * k + 1)"
    using assms by simp_all
  have c: "stl (stl (clock v)) = sdrop (2 * Suc k) (clock w)"
    using assms by simp
  have r: "100 \<le> ?n \<and> ?n \<le> 999 \<and> 2 \<le> ?h1 \<and> ?h1 \<le> 12 \<and> 14 \<le> ?h2 \<and> ?h2 \<le> 20
      \<and> 400 \<le> ?p \<and> ?p \<le> 1500"
    by (simp add: le_diff_conv2 less_Suc_eq_le[symmetric] del: less_Suc_eq_le)
  have "\<exists>airline n h1 h2 p.
           offer ?a ?n (shd (clock v) + hours ?h1) (shd (stl (clock v)) + hours ?h2) ?p ''Standard option''
             = offer airline n (clock w !! (2 * k) + hours h1) (clock w !! (2 * k + 1) + hours h2) p
                 ''Standard option''
           \<and> airline \<in> set all_airlines \<and> pa \<noteq> Some airline
           \<and> 100 \<le> n \<and> n \<le> 999
           \<and> 2 \<le> h1 \<and> h1 \<le> 12 \<and> 14 \<le> h2 \<and> h2 \<le> 20
           \<and> 400 \<le> p \<and> p \<le> 1500"
    using a r unfolding t by blast
  with c show ?thesis by (simp add: standard_offer_eq)
qed

lemma preferred_offer_range:
  "\<exists>n h1 h2 p.
      fst (preferred_offer airline w)
        = offer airline n (clock w !! 0 + hours h1) (clock w !! 1 + hours h2) p
            ''Matches your preferred airline''
      \<and> 100 \<le> n \<and> n \<le> 999
      \<and> 2 \<le> h1 \<and> h1 \<le> 5 \<and> 10 \<le> h2 \<and> h2 \<le> 14
      \<and> 800 \<le> p \<and> p \<le> 1800"
proof -
  let ?n = "100 + shd (rand w) mod 900"
  let ?h1 = "2 + shd (stl (rand w)) mod 4"
  let ?h2 = "10 + shd (stl (stl (rand w))) mod 5"
  let ?p = "800 + shd (stl (stl (stl (rand w)))) mod 1001"
  have r: "100 \<le> ?n \<and> ?n \<le> 999 \<and> 2 \<le> ?h1 \<and> ?h1 \<le> 5 \<and> 10 \<le> ?h2 \<and> ?h2 \<le> 14
      \<and> 800 \<le> ?p \<and> ?p \<le> 1800"
    by (simp add: le_diff_conv2 less_Suc_eq_le[symmetric] del: less_Suc_eq_le)
  have "fst (preferred_offer airline w)
     = offer airline ?n (clock w !! 0 + hours ?h1) (clock w !! 1 + hours ?h2) ?p
         ''Matches your preferred airline''"
    by (simp add: preferred_offer_eq)
  with r show ?thesis by blast
qed

lemma find_flights_print_raises:
  "stdout w (announcement d dd prefs) = Some e \<Longrightarrow> find_flights d dd prefs w = (Inl e, w)"
  by (simp add: find_flights_def py_print_def)

lemma find_flights_shape:
  assumes printed: "stdout w (announcement d dd prefs) = None"
  shows "\<exists>new w3. find_flights d dd prefs w =
      (Inr (JObj [(''status'', JStr ''success''),
                  (''flights'', JArr ((case find_preferred prefs of None \<Rightarrow> []
                                       | Some a \<Rightarrow> [fst (preferred_offer a w)]) @ new))]), w3)
    \<and> (length new = 1 \<or> length new = 2)
    \<and> (\<forall>i<length new. \<exists>airline n h1 h2 p.
           new ! i = offer airline n
               (clock w !! (2 * ((case find_preferred prefs of None \<Rightarrow> 0 | Some a \<Rightarrow> 1) + i))
                  + hours h1)
               (clock w !! (2 * ((case find_preferred prefs of None \<Rightarrow> 0 | Some a \<Rightarrow> 1) + i) + 1)
                  + hours h2)
               p ''Standard option''
           \<and> airline \<in> set all_airlines \<and> find_preferred prefs \<noteq> Some airline
           \<and> 100 \<le> n \<and> n \<le> 999
           \<and> 2 \<le> h1 \<and> h1 \<le> 12 \<and> 14 \<le> h2 \<and> h2 \<le> 20
           \<and> 400 \<le> p \<and> p \<le> 1500)"
proof -
  let ?pa = "find_preferred prefs"
  let ?k0 = "case ?pa of None \<Rightarrow> 0 | Some a \<Rightarrow> (1::nat)"
  let ?P = "\<lambda>k f. \<exists>airline n h1 h2 p.
           f = offer airline n (clock w !! (2 * k) + hours h1) (clock w !! (2 * k + 1) + hours h2) p
                 ''Standard option''
           \<and> airline \<in> set all_airlines \<and> ?pa \<noteq> Some airline
           \<and> 100 \<le> n \<and> n \<le> 999
           \<and> 2 \<le> h1 \<and> h1 \<le> 12 \<and> 14 \<le> h2 \<and> h2 \<le> 20
           \<and> 400 \<le> p \<and> p \<le> 1500"
  let ?I = "\<lambda>k v. clock v = sdrop (2 * k) (clock w)"
  let ?pre = "case ?pa of None \<Rightarrow> [] | Some a \<Rightarrow> [fst (preferred_offer a w)]"
  let ?w1 = "case ?pa of None \<Rightarrow> w | Some a \<Rightarrow> snd (preferred_offer a w)"
  let ?n = "fst (randint 1 2 ?w1)"
  let ?w2 = "snd (randint 1 2 ?w1)"
  have step: "\<And>k v. ?I k v \<Longrightarrow> \<exists>f v'. standard_offer ?pa v = (Inr f, v') \<and> ?P k f \<and> ?I (Suc k) v'"
    by (rule standard_offer_range)
  have "?I ?k0 ?w1"
    by (cases ?pa) (simp_all add: preferred_offer_eq numeral_2_eq_2)
  then have "?I ?k0 ?w2" by (simp add: randint_eq)
  from standard_offers_indexed[of ?I ?pa ?P ?k0 ?w2 ?n ?pre, OF step this] obtain new w3 where
    new: "standard_offers ?n ?pa ?pre ?w2 = (Inr (?pre @ new), w3)" "length new = ?n"
      "\<forall>i<?n. ?P (?k0 + i) (new ! i)" by blast
  have unfold: "find_flights d dd prefs w =
      (case standard_offers ?n ?pa ?pre ?w2 of
         (Inl e, w3) \<Rightarrow> (Inl e, w3)
       | (Inr flights, w3) \<Rightarrow>
           (Inr (JObj [(''status'', JStr ''success''), (''flights'', JArr flights)]), w3))"
    using printed
    by (cases ?pa) (simp_all add: find_flights_def py_print_def Let_def split: prod.splits)
  have "find_flights d dd prefs w =
      (Inr (JObj [(''status'', JStr ''success''), (''flights'', JArr (?pre @ new))]), w3)"
    by (subst unfold, subst new(1)) simp
  moreover have "?n = 1 \<or> ?n = 2"
    by (cases "shd (rand ?w1) mod 2 = 0") (auto simp: randint_eq)
  then have "length new = 1 \<or> length new = 2"
    using new(2) by simp
  moreover have "\<forall>i<length new. ?P (?k0 + i) (new ! i)"
    using new(2,3) by simp
  ultimately show ?thesis by blast
qed









lemma upper_examples: "upper ''De'' = ''DE''" "upper ''Qa'' = ''QA''"
  by (simp_all add: upper_def upper_char_def char_of_eq_iff)

lemma str_of_nat_examples:
  "str_of_nat 100 = ''100''" "str_of_nat 800 = ''800''" "str_of_nat 400 = ''400''"
  by (simp_all add: str_of_nat.simps digit_char_def char_of_eq_iff)

lemma strftime_examples:
  "strftime_HM 0 = ''00:00''" "strftime_HM 120 = ''02:00''" "strftime_HM 180 = ''03:00''"
  "strftime_HM 300 = ''05:00''"
  "strftime_HM 720 = ''12:00''" "strftime_HM 840 = ''14:00''" "strftime_HM 900 = ''15:00''"
  "strftime_HM 1200 = ''20:00''"
  by (simp_all add: strftime_HM_def two_digits_def digit_char_def char_of_eq_iff)

lemma find_preferred_examples:
  "find_preferred (Some [''I love Delta'']) = Some ''Delta''"
  "find_preferred (Some [''I love window seats'']) = None"
  by (simp_all add: find_preferred_def all_airlines_def lower_def lower_char_def)

lemma candidates_examples:
  "filter (\<lambda>a. a \<noteq> ''Delta'') all_airlines =
     [''Qatar Airways'', ''Singapore Airlines'', ''Ryanair'', ''Lufthansa'', ''Emirates'']"
  "all_airlines ! 0 = ''Delta''" "length all_airlines = 6"
  by (simp_all add: all_airlines_def)

lemmas flight_eval = find_flights_def py_print_def Let_def find_preferred_examples preferred_offer_eq randint_eq
  standard_offer_eq candidates_examples offer_def upper_examples str_of_nat_examples
  strftime_examples hours_def

lemma flights_latest_example:
  "find_flights ''Paris'' ''2025-01-01'' (Some [''I love Delta'']) latest_at_midnight =
     (Inr (JObj [(''status'', JStr ''success''),
        (''flights'', JArr [
           flight ''Delta'' ''DE100'' ''05:00'' ''14:00'' ''800 EUR''
             ''Matches your preferred airline'',
           flight ''Qatar Airways'' ''QA100'' ''12:00'' ''20:00'' ''400 EUR''
             ''Standard option''])]),
      lowest_at_midnight)"
  by (simp add: flight_eval)

lemma flights_window_example:
  "find_flights ''Paris'' ''2025-01-01'' (Some [''I love window seats'']) lowest_at_midnight =
     (Inr (JObj [(''status'', JStr ''success''),
        (''flights'', JArr [
           flight ''Delta'' ''DE100'' ''02:00'' ''14:00'' ''400 EUR'' ''Standard option''])]),
      lowest_at_midnight)"
  by (simp add: flight_eval)

lemma flights_later_example:
  "find_flights ''Paris'' ''2025-01-01'' (Some [''I love window seats'']) lowest_at_one =
     (Inr (JObj [(''status'', JStr ''success''),
        (''flights'', JArr [
           flight ''Delta'' ''DE100'' ''03:00'' ''15:00'' ''400 EUR'' ''Standard option''])]),
      lowest_at_one)"
  by (simp add: flight_eval)

lemma flights_ascii_example:
  "find_flights ''Paris'' ''2025-01-01'' (Some [''I love window seats'']) lowest_in_ascii =
     (Inr (JObj [(''status'', JStr ''success''),
        (''flights'', JArr [
           flight ''Delta'' ''DE100'' ''02:00'' ''14:00'' ''400 EUR'' ''Standard option''])]),
      lowest_in_ascii)"
  by (simp add: flight_eval announcement_def)

lemma before_five_hours:
  assumes "120 \<le> m" "m < 300"
  shows "strftime_HM (0 + m) \<noteq> ''05:00''"
proof -
  from assms have "m div 60 = 2 \<or> m div 60 = 3 \<or> m div 60 = 4" by arith
  then show ?thesis
    by (auto simp: strftime_HM_def two_digits_def digit_char_def char_of_eq_iff)
qed


section \<open>The claims about the flight generator\<close>



text \<open>
  Claim C5 (field ranges), as stated, fails: \<^verbatim>\<open>random.randint\<close> includes its upper
  bound. With every clock reading at 00:00, the draws of the example give the preferred
  offer a departure at 05:00 and an arrival at 14:00, and the standard offer a
  departure at 12:00 and an arrival at 20:00: offsets of 5, 14, 12 and 20 hours, each
  outside the half-open interval of the claim. By \<open>before_five_hours\<close>, no offset of at
  least 2 and less than 5 hours from 00:00 prints as 05:00.
\<close>

theorem offset_five_hours_counterexample:
  "fst (find_flights ''Paris'' ''2025-01-01'' (Some [''I love Delta'']) latest_at_midnight)
     = Inr (JObj [(''status'', JStr ''success''),
          (''flights'', JArr [
             flight ''Delta'' ''DE100'' ''05:00'' ''14:00'' ''800 EUR''
               ''Matches your preferred airline'',
             flight ''Qatar Airways'' ''QA100'' ''12:00'' ''20:00'' ''400 EUR''
               ''Standard option''])])
   \<and> sset (clock latest_at_midnight) = {0}
   \<and> strftime_HM 0 = ''00:00''
   \<and> strftime_HM (0 + hours 5) = ''05:00'' \<and> strftime_HM (0 + hours 14) = ''14:00''
   \<and> strftime_HM (0 + hours 12) = ''12:00'' \<and> strftime_HM (0 + hours 20) = ''20:00''"
  by (simp add: flights_latest_example strftime_examples hours_def)

text \<open>
  Claim C5, amended. A call whose \<^verbatim>\<open>print\<close> raises generates nothing. In every other
  call, every offer returned is either the offer of the preferred airline,
  which then comes first, or a standard offer for a catalogue airline other than the
  preferred one. Its flight number is the first two characters of the airline name in
  upper case followed by a number from 100 to 999, which has three digits. For the
  offer at position \<open>i\<close>, now is reading \<open>2 * i\<close> of the clock for the departure and
  reading \<open>2 * i + 1\<close> for the arrival. The preferred offer departs a whole number of
  hours from 2 to 5, both included, after now, arrives from 10 to 14 hours after now,
  and costs from 800 to 1800; a standard offer departs from 2 to 12 hours after now,
  arrives from 14 to 20 hours after now, and costs from 400 to 1500.
\<close>

theorem offer_ranges:
  assumes "find_flights destination departure_date preferences w = (r, w')"
  shows "case stdout w (announcement destination departure_date preferences) of
      Some e \<Rightarrow> r = Inl e
    | None \<Rightarrow>
     (\<exists>flights. r = Inr (JObj [(''status'', JStr ''success''), (''flights'', JArr flights)])
    \<and> (\<forall>i<length flights.
         (\<exists>airline n h1 h2 p.
            flights ! i = offer airline n (clock w !! (2 * i) + hours h1)
                            (clock w !! (2 * i + 1) + hours h2) p ''Matches your preferred airline''
            \<and> i = 0 \<and> find_preferred preferences = Some airline
            \<and> 100 \<le> n \<and> n \<le> 999 \<and> length (str_of_nat n) = 3
            \<and> 2 \<le> h1 \<and> h1 \<le> 5 \<and> 10 \<le> h2 \<and> h2 \<le> 14
            \<and> 800 \<le> p \<and> p \<le> 1800)
       \<or> (\<exists>airline n h1 h2 p.
            flights ! i = offer airline n (clock w !! (2 * i) + hours h1)
                            (clock w !! (2 * i + 1) + hours h2) p ''Standard option''
            \<and> airline \<in> set all_airlines \<and> find_preferred preferences \<noteq> Some airline
            \<and> 100 \<le> n \<and> n \<le> 999 \<and> length (str_of_nat n) = 3
            \<and> 2 \<le> h1 \<and> h1 \<le> 12 \<and> 14 \<le> h2 \<and> h2 \<le> 20
            \<and> 400 \<le> p \<and> p \<le> 1500)))"
proof (cases "stdout w (announcement destination departure_date preferences)")
  case (Some e)
  from find_flights_print_raises[OF Some] assms have "r = Inl e" by simp
  with Some show ?thesis by simp
next
  case None
  note printed = None
  let ?pa = "find_preferred preferences"
  let ?k0 = "case ?pa of None \<Rightarrow> 0 | Some a \<Rightarrow> (1::nat)"
  let ?pre = "case ?pa of None \<Rightarrow> [] | Some a \<Rightarrow> [fst (preferred_offer a w)]"
  let ?M = "\<lambda>i f. \<exists>airline n h1 h2 p.
            f = offer airline n (clock w !! (2 * i) + hours h1)
                  (clock w !! (2 * i + 1) + hours h2) p ''Matches your preferred airline''
            \<and> i = 0 \<and> ?pa = Some airline
            \<and> 100 \<le> n \<and> n \<le> 999 \<and> length (str_of_nat n) = 3
            \<and> 2 \<le> h1 \<and> h1 \<le> 5 \<and> 10 \<le> h2 \<and> h2 \<le> 14
            \<and> 800 \<le> p \<and> p \<le> 1800"
  let ?S = "\<lambda>i f. \<exists>airline n h1 h2 p.
            f = offer airline n (clock w !! (2 * i) + hours h1)
                  (clock w !! (2 * i + 1) + hours h2) p ''Standard option''
            \<and> airline \<in> set all_airlines \<and> ?pa \<noteq> Some airline
            \<and> 100 \<le> n \<and> n \<le> 999 \<and> length (str_of_nat n) = 3
            \<and> 2 \<le> h1 \<and> h1 \<le> 12 \<and> 14 \<le> h2 \<and> h2 \<le> 20
            \<and> 400 \<le> p \<and> p \<le> 1500"
  from find_flights_shape[OF printed] assms
  obtain new where
    r: "r = Inr (JObj [(''status'', JStr ''success''), (''flights'', JArr (?pre @ new))])"
    and std: "\<forall>i<length new. \<exists>airline n h1 h2 p.
           new ! i = offer airline n (clock w !! (2 * (?k0 + i)) + hours h1)
                       (clock w !! (2 * (?k0 + i) + 1) + hours h2) p ''Standard option''
           \<and> airline \<in> set all_airlines \<and> ?pa \<noteq> Some airline
           \<and> 100 \<le> n \<and> n \<le> 999
           \<and> 2 \<le> h1 \<and> h1 \<le> 12 \<and> 14 \<le> h2 \<and> h2 \<le> 20
           \<and> 400 \<le> p \<and> p \<le> 1500"
    by auto
  have S: "?S (?k0 + j) (new ! j)" if "j < length new" for j
  proof -
    from std that obtain airline n h1 h2 p where
      "new ! j = offer airline n (clock w !! (2 * (?k0 + j)) + hours h1)
                       (clock w !! (2 * (?k0 + j) + 1) + hours h2) p ''Standard option''
           \<and> airline \<in> set all_airlines \<and> ?pa \<noteq> Some airline
           \<and> 100 \<le> n \<and> n \<le> 999
           \<and> 2 \<le> h1 \<and> h1 \<le> 12 \<and> 14 \<le> h2 \<and> h2 \<le> 20
           \<and> 400 \<le> p \<and> p \<le> 1500"
      by blast
    then show ?thesis using str_of_nat_three_digits by blast
  qed
  have "?M i ((?pre @ new) ! i) \<or> ?S i ((?pre @ new) ! i)" if i: "i < length (?pre @ new)" for i
  proof (cases ?pa)
    case None
    with i have "i < length new" "(?pre @ new) ! i = new ! i" "?k0 + i = i" by simp_all
    with S[of i] show ?thesis by simp
  next
    case (Some a)
    show ?thesis
    proof (cases i)
      case 0
      from preferred_offer_range[of a w] obtain n h1 h2 p where
        o: "fst (preferred_offer a w)
           = offer a n (clock w !! 0 + hours h1) (clock w !! 1 + hours h2) p
               ''Matches your preferred airline''"
        and b: "100 \<le> n" "n \<le> 999" "2 \<le> h1" "h1 \<le> 5" "10 \<le> h2" "h2 \<le> 14"
          "800 \<le> p" "p \<le> 1800"
        by blast
      from b have "length (str_of_nat n) = 3" by (simp add: str_of_nat_three_digits)
      with o b Some have "?M 0 (fst (preferred_offer a w))"
        by (intro exI[of _ a] exI[of _ n] exI[of _ h1] exI[of _ h2] exI[of _ p]) simp
      with Some 0 show ?thesis by simp
    next
      case (Suc j)
      with Some i have "j < length new" "(?pre @ new) ! i = new ! j" "?k0 + j = i" by simp_all
      with S[of j] show ?thesis by simp
    qed
  qed
  with r have "\<exists>flights. r = Inr (JObj [(''status'', JStr ''success''), (''flights'', JArr flights)])
      \<and> (\<forall>i<length flights. ?M i (flights ! i) \<or> ?S i (flights ! i))"
    by blast
  with printed show ?thesis by simp
qed

theorem offer_ranges_witness:
  "fst (find_flights ''Paris'' ''2025-01-01'' (Some [''I love window seats''])
          lowest_at_midnight)
     = Inr (JObj [(''status'', JStr ''success''),
          (''flights'', JArr [
             flight ''Delta'' ''DE100'' ''02:00'' ''14:00'' ''400 EUR'' ''Standard option''])])
   \<and> (\<exists>airline n h1 h2 p.
         flight ''Delta'' ''DE100'' ''02:00'' ''14:00'' ''400 EUR'' ''Standard option''
           = offer airline n (0 + hours h1) (0 + hours h2) p ''Standard option''
         \<and> 100 \<le> n \<and> n \<le> 999 \<and> length (str_of_nat n) = 3
         \<and> 2 \<le> h1 \<and> h1 \<le> 12 \<and> 14 \<le> h2 \<and> h2 \<le> 20 \<and> 400 \<le> p \<and> p \<le> 1500)"
proof -
  from offer_ranges [OF flights_window_example]
  have "\<exists>airline n h1 h2 p.
         flight ''Delta'' ''DE100'' ''02:00'' ''14:00'' ''400 EUR'' ''Standard option''
           = offer airline n (0 + hours h1) (0 + hours h2) p ''Standard option''
         \<and> 100 \<le> n \<and> n \<le> 999 \<and> length (str_of_nat n) = 3
         \<and> 2 \<le> h1 \<and> h1 \<le> 12 \<and> 14 \<le> h2 \<and> h2 \<le> 20 \<and> 400 \<le> p \<and> p \<le> 1500"
    by (clarsimp simp: find_preferred_examples) blast
  then show ?thesis by (simp add: flights_window_example)
qed

text \<open>
  Claim C10 (input independence), as stated, fails twice. With the same preferences and
  the same random draws, two calls at different times of the day return different
  departure and arrival times. And with the same preferences, draws and clock, on a
  standard output that cannot print the name of one destination, the call for that
  destination raises, where the call for another returns its flights.
\<close>

theorem clock_dependence_counterexample:
  "rand lowest_at_midnight = rand lowest_at_one
   \<and> fst (find_flights ''Paris'' ''2025-01-01'' (Some [''I love window seats''])
            lowest_at_midnight)
       = Inr (JObj [(''status'', JStr ''success''),
            (''flights'', JArr [
               flight ''Delta'' ''DE100'' ''02:00'' ''14:00'' ''400 EUR'' ''Standard option''])])
   \<and> fst (find_flights ''Paris'' ''2025-01-01'' (Some [''I love window seats''])
            lowest_at_one)
       = Inr (JObj [(''status'', JStr ''success''),
            (''flights'', JArr [
               flight ''Delta'' ''DE100'' ''03:00'' ''15:00'' ''400 EUR'' ''Standard option''])])
   \<and> fst (find_flights ''Paris'' ''2025-01-01'' (Some [''I love window seats''])
            lowest_at_midnight)
       \<noteq> fst (find_flights ''Paris'' ''2025-01-01'' (Some [''I love window seats''])
            lowest_at_one)
   \<and> fst (find_flights ''Paris'' ''2025-01-01'' (Some [''I love window seats''])
            lowest_in_ascii)
       = Inr (JObj [(''status'', JStr ''success''),
            (''flights'', JArr [
               flight ''Delta'' ''DE100'' ''02:00'' ''14:00'' ''400 EUR'' ''Standard option''])])
   \<and> find_flights zurich ''2025-01-01'' (Some [''I love window seats'']) lowest_in_ascii
       = (Inl UnicodeEncodeError, lowest_in_ascii)"
  by (simp add: flights_window_example flights_later_example flights_ascii_example
      find_flights_print_raises)

text \<open>
  Claim C10, amended. Two calls of \<^verbatim>\<open>find_flights\<close> with the same preferences, the same
  random draws and the same clock readings, in each of which the line that names the
  destination and the date is printed, return the same result and leave the same
  state, whatever the destination and the departure date of each; and the result of
  such a call has the status \<^verbatim>\<open>"success"\<close>.
\<close>

theorem find_flights_ignores_destination:
  assumes "stdout w (announcement destination departure_date preferences) = None"
    and "stdout w (announcement destination' departure_date' preferences) = None"
  shows "find_flights destination departure_date preferences w
           = find_flights destination' departure_date' preferences w
   \<and> (\<exists>flights. fst (find_flights destination departure_date preferences w)
         = Inr (JObj [(''status'', JStr ''success''), (''flights'', JArr flights)]))"
proof -
  have "find_flights destination departure_date preferences w
          = find_flights destination' departure_date' preferences w"
    using assms by (simp add: find_flights_def py_print_def)
  moreover from find_flights_shape[OF assms(1)]
  have "\<exists>flights. fst (find_flights destination departure_date preferences w)
         = Inr (JObj [(''status'', JStr ''success''), (''flights'', JArr flights)])"
    by auto
  ultimately show ?thesis by simp
qed

theorem find_flights_ignores_destination_witness:
  "stdout lowest_at_midnight
       (announcement ''Paris'' ''2025-01-01'' (Some [''I love window seats''])) = None
   \<and> stdout lowest_at_midnight
       (announcement ''Tokyo'' ''2026-07-15'' (Some [''I love window seats''])) = None
   \<and> find_flights ''Tokyo'' ''2026-07-15'' (Some [''I love window seats'']) lowest_at_midnight
       = (Inr (JObj [(''status'', JStr ''success''),
            (''flights'', JArr [
               flight ''Delta'' ''DE100'' ''02:00'' ''14:00'' ''400 EUR'' ''Standard option''])]),
          lowest_at_midnight)"
  using find_flights_ignores_destination [where w = lowest_at_midnight
      and destination = "''Paris''" and departure_date = "''2025-01-01''"
      and preferences = "Some [''I love window seats'']"
      and destination' = "''Tokyo''" and departure_date' = "''2026-07-15''"]
    flights_window_example
  by simp

end
